theory Spec2Isabelle
  imports Main
begin

section \<open>The restore command of restic: \<^verbatim>\<open>cmd/restic/cmd_restore.go\<close>\<close>

text \<open>
  The file holds one function, \<^verbatim>\<open>runRestore\<close>, and the four closures it builds:
  the per-item error and warning callbacks handed to the restorer, and the two node
  selectors (exclude mode and include mode). Everything else (pattern compilation,
  repository, snapshot lookup, the restorer itself, the message sink) lives in other
  packages and appears here as a parameter.
\<close>

subsection \<open>Data\<close>

text \<open>
  A Go \<^verbatim>\<open>error\<close> value. \<open>Fatal m\<close> is what \<^verbatim>\<open>errors.Fatal(m)\<close> returns, and \<^verbatim>\<open>errors.Fatalf\<close> with
  its message formatted to \<open>m\<close>; any other error a collaborator hands back is a
  \<open>Failure\<close> with its text.
\<close>

datatype error = Fatal string | Failure string

text \<open>
  The \<^verbatim>\<open>Error()\<close> text of an error, which is what \<^verbatim>\<open>%s\<close> and \<^verbatim>\<open>%v\<close> print. A fatal error is
  its message wrapped under \<^verbatim>\<open>Fatal\<close>, so its text is the message behind \<^verbatim>\<open>Fatal: \<close>.
\<close>

fun error_text :: "error \<Rightarrow> string" where
  "error_text (Fatal m) = ''Fatal: '' @ m"
| "error_text (Failure m) = m"

text \<open>\<^verbatim>\<open>restic.Node\<close>: the selectors read its \<^verbatim>\<open>Type\<close> field and nothing else.\<close>

record Node =
  Type :: string

text \<open>
  The pattern functions are Go func values, \<^verbatim>\<open>func(string) bool\<close> for a reject function
  and \<^verbatim>\<open>func(string) (bool, bool)\<close> for an include function. A func value may do more
  than return: the type \<open>'w\<close> stands for whatever state a call can read and change
  (a log of calls, for instance), threaded through every call in program order. A pure
  predicate leaves it alone (\<open>pureFn\<close>).
\<close>

type_synonym 'w RejectFunc = "string \<Rightarrow> 'w \<Rightarrow> bool \<times> 'w"

type_synonym 'w IncludeFunc = "string \<Rightarrow> 'w \<Rightarrow> (bool \<times> bool) \<times> 'w"

type_synonym 'w SelectFilter = "string \<Rightarrow> string \<Rightarrow> Node \<Rightarrow> 'w \<Rightarrow> (bool \<times> bool) \<times> 'w"

definition pureFn :: "(string \<Rightarrow> 'a) \<Rightarrow> string \<Rightarrow> 'w \<Rightarrow> 'a \<times> 'w" where
  "pureFn f item w = (f item, w)"

subsection \<open>The selectors (lines 152 to 176)\<close>

text \<open>
  \<^verbatim>\<open>selectExcludeFilter\<close>: a \<^verbatim>\<open>for ... range\<close> loop whose body ends in \<^verbatim>\<open>return\<close>, so the
  body runs for the first element at most. With no element the named results are
  returned as Go initialised them: \<^verbatim>\<open>false, false\<close>.
\<close>

fun selectExcludeFilter :: "'w RejectFunc list \<Rightarrow> 'w SelectFilter" where
  "selectExcludeFilter [] item _ node w = ((False, False), w)"
| "selectExcludeFilter (rejectFn # _) item _ node w =
     (case rejectFn item w of
        (matched, w') \<Rightarrow>
          let selectedForRestore = \<not> matched;
              childMayBeSelected = selectedForRestore \<and> Type node = ''dir''
          in ((selectedForRestore, childMayBeSelected), w'))"

text \<open>
  \<^verbatim>\<open>selectIncludeFilter\<close>: the loop assigns both named results from each call in turn;
  \<open>includeLoop\<close> is that loop, with the two variables as its third argument.
\<close>

fun includeLoop :: "'w IncludeFunc list \<Rightarrow> string \<Rightarrow> bool \<times> bool \<Rightarrow> 'w \<Rightarrow> (bool \<times> bool) \<times> 'w" where
  "includeLoop [] item (selectedForRestore, childMayBeSelected) w =
     ((selectedForRestore, childMayBeSelected), w)"
| "includeLoop (includeFn # fns) item _ w =
     (case includeFn item w of
        ((selectedForRestore, childMayBeSelected), w') \<Rightarrow>
          includeLoop fns item (selectedForRestore, childMayBeSelected) w')"

definition selectIncludeFilter :: "'w IncludeFunc list \<Rightarrow> 'w SelectFilter" where
  "selectIncludeFilter includePatternFns item path node w =
     (case includeLoop includePatternFns item (False, False) w of
        ((selectedForRestore, childMayBeSelected), w') \<Rightarrow>
          ((selectedForRestore, childMayBeSelected \<and> Type node = ''dir''), w'))"

text \<open>
  The state left by calling every function of a list on \<open>item\<close>, first to last: what
  "each of them has been evaluated, in order" means for the threaded state.
\<close>

definition evaluated :: "(string \<Rightarrow> 'w \<Rightarrow> 'a \<times> 'w) list \<Rightarrow> string \<Rightarrow> 'w \<Rightarrow> 'w" where
  "evaluated fns item w = fold (\<lambda>f v. snd (f item v)) fns w"

text \<open>
  A pattern function that keeps a log: it appends its own number \<open>i\<close> to the list of
  calls made so far and answers as \<open>f\<close> does.
\<close>

definition logged :: "nat \<Rightarrow> (string \<Rightarrow> 'a) \<Rightarrow> string \<Rightarrow> nat list \<Rightarrow> 'a \<times> nat list" where
  "logged i f item w = (f item, w @ [i])"

subsection \<open>Options, snapshot, restorer\<close>

text \<open>
  \<^verbatim>\<open>RestoreOptions\<close> with the fields of the embedded structs that \<^verbatim>\<open>runRestore\<close> reads:
  \<^verbatim>\<open>Excludes\<close> and \<^verbatim>\<open>InsensitiveExcludes\<close> of \<^verbatim>\<open>excludePatternOptions\<close>, \<^verbatim>\<open>Includes\<close> and
  \<^verbatim>\<open>InsensitiveIncludes\<close> of \<^verbatim>\<open>includePatternOptions\<close>, and \<^verbatim>\<open>Hosts\<close>, \<^verbatim>\<open>Paths\<close>, \<^verbatim>\<open>Tags\<close> of
  \<^verbatim>\<open>restic.SnapshotFilter\<close>.
\<close>

record RestoreOptions =
  Excludes :: "string list"
  InsensitiveExcludes :: "string list"
  Includes :: "string list"
  InsensitiveIncludes :: "string list"
  Target :: string
  Hosts :: "string list"
  Paths :: "string list"
  Tags :: "string list list"
  Sparse :: bool
  Verify :: bool

record GlobalOptions =
  NoLock :: bool
  Quiet :: bool
  JSON :: bool
  verbosity :: nat

record Snapshot =
  ID :: string
  Tree :: string

text \<open>
  What \<^verbatim>\<open>restorer.NewRestorer(repo, sn, opts.Sparse, progress)\<close> is given, and the
  \<^verbatim>\<open>SelectFilter\<close> field that lines 178 to 182 may set (\<open>None\<close>: the restorer's default).
\<close>

record ('repo, 'w) Restorer =
  res_repo :: 'repo
  res_sn :: Snapshot
  res_sparse :: bool
  SelectFilter :: "'w SelectFilter option"

subsection \<open>The session state and the callbacks (lines 142 to 150)\<close>

text \<open>
  A line handed to the message sink: \<^verbatim>\<open>msg.E\<close> (error stream) or \<^verbatim>\<open>msg.P\<close> (standard
  output). What the sink does with it (verbosity) is the sink's business.
\<close>

datatype message = E string | P string

text \<open>The calls \<^verbatim>\<open>runRestore\<close> makes to its collaborators, for the log of a run.\<close>

datatype call =
    Call_CollectExclude
  | Call_CollectInclude
  | Call_openWithReadLock
  | Call_unlock
  | Call_FindLatest
  | Call_LoadIndex
  | Call_FindTreeDirectory
  | Call_RestoreTo
  | Call_Finish
  | Call_VerifyFiles

text \<open>
  The state of one run: the local variable \<^verbatim>\<open>totalErrors\<close>, the lines sent to the
  message sink so far, the collaborator calls made so far, and the calls registered
  with \<^verbatim>\<open>defer\<close>.

  \<^verbatim>\<open>totalErrors\<close> is a Go \<^verbatim>\<open>int\<close> (64 bits wide, 32 on a 32-bit platform). It starts at 0
  and the only statement that changes it is \<^verbatim>\<open>totalErrors++\<close> in \<^verbatim>\<open>res.Error\<close>, so after \<open>n\<close>
  callbacks it holds \<open>n\<close> for every \<open>n\<close> below \<open>2^63\<close> (\<open>2^31\<close>). It is an unbounded
  integer here: the model is of the runs with fewer callbacks than that.
\<close>

record session =
  totalErrors :: int
  out :: "message list"
  calls :: "call list"
  deferred :: "call list"

definition init :: session where
  "init = \<lparr>totalErrors = 0, out = [], calls = [], deferred = []\<rparr>"

definition msg_E :: "string \<Rightarrow> session \<Rightarrow> session" where
  "msg_E line s = s\<lparr>out := out s @ [E line]\<rparr>"

definition msg_P :: "string \<Rightarrow> session \<Rightarrow> session" where
  "msg_P line s = s\<lparr>out := out s @ [P line]\<rparr>"

definition called :: "call \<Rightarrow> session \<Rightarrow> session" where
  "called c s = s\<lparr>calls := calls s @ [c]\<rparr>"

text \<open>\<^verbatim>\<open>res.Error\<close>: print, count, return \<^verbatim>\<open>nil\<close>.\<close>

definition res_Error :: "string \<Rightarrow> error \<Rightarrow> session \<Rightarrow> error option \<times> session" where
  "res_Error location err s =
     (let s1 = msg_E (''ignoring error for '' @ location @ '': '' @ error_text err @ ''\<newline>'') s;
          s2 = s1\<lparr>totalErrors := totalErrors s1 + 1\<rparr>
      in (None, s2))"

text \<open>\<^verbatim>\<open>res.Warn\<close>: print.\<close>

definition res_Warn :: "string \<Rightarrow> session \<Rightarrow> session" where
  "res_Warn message s = msg_E (''Warning: '' @ message @ ''\<newline>'') s"

subsection \<open>The restorer as a caller of the callbacks\<close>

text \<open>
  \<^verbatim>\<open>res.RestoreTo\<close> and \<^verbatim>\<open>res.VerifyFiles\<close> are not in this file. All \<^verbatim>\<open>runRestore\<close> sees of
  them is their return value and the calls they make to \<^verbatim>\<open>res.Error\<close> and \<^verbatim>\<open>res.Warn\<close>
  meanwhile. An \<open>engine\<close> is such a behaviour: it returns, or calls \<^verbatim>\<open>res.Error\<close> and goes
  on as the returned value tells it, or calls \<^verbatim>\<open>res.Warn\<close> and goes on.
\<close>

datatype 'r engine =
    Return 'r
  | CallError string error "error option \<Rightarrow> 'r engine"
  | CallWarn string "'r engine"

primrec run_engine :: "'r engine \<Rightarrow> session \<Rightarrow> 'r \<times> session" where
  "run_engine (Return r) s = (r, s)"
| "run_engine (CallError location err k) s =
     (case res_Error location err s of (ret, s') \<Rightarrow> run_engine (k ret) s')"
| "run_engine (CallWarn message k) s = run_engine k (res_Warn message s)"

text \<open>
  Along the path an engine takes when every \<^verbatim>\<open>res.Error\<close> call returns \<^verbatim>\<open>nil\<close>: the number
  of \<^verbatim>\<open>res.Error\<close> calls, the lines printed, and the value returned.
\<close>

primrec errorsReported :: "'r engine \<Rightarrow> nat" where
  "errorsReported (Return r) = 0"
| "errorsReported (CallError location err k) = Suc (errorsReported (k None))"
| "errorsReported (CallWarn message k) = errorsReported k"

primrec engineLines :: "'r engine \<Rightarrow> message list" where
  "engineLines (Return r) = []"
| "engineLines (CallError location err k) =
     E (''ignoring error for '' @ location @ '': '' @ error_text err @ ''\<newline>'') # engineLines (k None)"
| "engineLines (CallWarn message k) = E (''Warning: '' @ message @ ''\<newline>'') # engineLines k"

primrec engineResult :: "'r engine \<Rightarrow> 'r" where
  "engineResult (Return r) = r"
| "engineResult (CallError location err k) = engineResult (k None)"
| "engineResult (CallWarn message k) = engineResult k"

subsection \<open>The collaborators\<close>

text \<open>
  The functions of other packages that \<^verbatim>\<open>runRestore\<close> calls, as parameters of the model:
  \<^verbatim>\<open>CollectPatterns\<close> of the two option structs, \<^verbatim>\<open>openWithReadLock\<close>,
  \<^verbatim>\<open>SnapshotFilter.FindLatest\<close> (given hosts, paths and tags), \<^verbatim>\<open>repo.LoadIndex\<close>,
  \<^verbatim>\<open>restic.FindTreeDirectory\<close>, the \<^verbatim>\<open>String\<close> method of a snapshot (for \<^verbatim>\<open>%s\<close>), the two
  restorer passes, and the rendering of \<^verbatim>\<open>time.Since(t0).Round(time.Millisecond)\<close>.
\<close>

record ('repo, 'w) env =
  CollectExcludePatterns :: "RestoreOptions \<Rightarrow> error + 'w RejectFunc list"
  CollectIncludePatterns :: "RestoreOptions \<Rightarrow> error + 'w IncludeFunc list"
  openWithReadLock :: "GlobalOptions \<Rightarrow> bool \<Rightarrow> error + 'repo"
  FindLatest :: "string list \<Rightarrow> string list \<Rightarrow> string list list \<Rightarrow> 'repo \<Rightarrow> string
                 \<Rightarrow> error + Snapshot \<times> string"
  LoadIndex :: "'repo \<Rightarrow> error option"
  FindTreeDirectory :: "'repo \<Rightarrow> string \<Rightarrow> string \<Rightarrow> error + string"
  Snapshot_String :: "Snapshot \<Rightarrow> string"
  RestoreTo :: "('repo, 'w) Restorer \<Rightarrow> string \<Rightarrow> error option engine"
  VerifyFiles :: "('repo, 'w) Restorer \<Rightarrow> string \<Rightarrow> (int \<times> error option) engine"
  elapsed :: string

subsection \<open>Formatting\<close>

text \<open>\<^verbatim>\<open>%d\<close> of an \<^verbatim>\<open>int\<close> and \<^verbatim>\<open>%v\<close> of a \<^verbatim>\<open>[]string\<close>, as Go's \<^verbatim>\<open>fmt\<close> prints them.\<close>

fun fmt_d_nat :: "nat \<Rightarrow> string" where
  "fmt_d_nat n =
     (if n < 10 then [''0123456789'' ! n]
      else fmt_d_nat (n div 10) @ [''0123456789'' ! (n mod 10)])"

definition fmt_d :: "int \<Rightarrow> string" where
  "fmt_d i = (if i < 0 then ''-'' @ fmt_d_nat (nat (- i)) else fmt_d_nat (nat i))"

fun join :: "string \<Rightarrow> string list \<Rightarrow> string" where
  "join sep [] = []"
| "join sep [x] = x"
| "join sep (x # y # ys) = x @ sep @ join sep (y # ys)"

definition fmt_v :: "string list \<Rightarrow> string" where
  "fmt_v xs = ''['' @ join '' '' xs @ '']''"

subsection \<open>\<^verbatim>\<open>runRestore\<close> (lines 70 to 220)\<close>

definition hasExcludes :: "RestoreOptions \<Rightarrow> bool" where
  "hasExcludes opts \<longleftrightarrow> length (Excludes opts) > 0 \<or> length (InsensitiveExcludes opts) > 0"

definition hasIncludes :: "RestoreOptions \<Rightarrow> bool" where
  "hasIncludes opts \<longleftrightarrow> length (Includes opts) > 0 \<or> length (InsensitiveIncludes opts) > 0"

text \<open>
  Lines 73 to 99: both pattern collections, then the checks on the arguments, the
  target and the two filter groups. \<open>Inl\<close> is an early \<^verbatim>\<open>return\<close> with an error; \<open>Inr\<close>
  carries the two lists of pattern functions on.
\<close>

definition validatePhase ::
  "('repo, 'w) env \<Rightarrow> RestoreOptions \<Rightarrow> GlobalOptions \<Rightarrow> string list \<Rightarrow> session
   \<Rightarrow> error \<times> session + ('w RejectFunc list \<times> 'w IncludeFunc list) \<times> session"
where
  "validatePhase env opts gopts args s0 =
     (let s1 = called Call_CollectExclude s0 in
      case CollectExcludePatterns env opts of
        Inl err \<Rightarrow> Inl (err, s1)
      | Inr excludePatternFns \<Rightarrow>
     (let s2 = called Call_CollectInclude s1 in
      case CollectIncludePatterns env opts of
        Inl err \<Rightarrow> Inl (err, s2)
      | Inr includePatternFns \<Rightarrow>
          if length args = 0 then
            Inl (Fatal ''no snapshot ID specified'', s2)
          else if length args > 1 then
            Inl (Fatal (''more than one snapshot ID specified: '' @ fmt_v args), s2)
          else if Target opts = '''' then
            Inl (Fatal ''please specify a directory to restore to (--target)'', s2)
          else if hasExcludes opts \<and> hasIncludes opts then
            Inl (Fatal ''exclude and include patterns are mutually exclusive'', s2)
          else Inr ((excludePatternFns, includePatternFns), s2)))"

text \<open>
  Lines 101 to 191, after the checks: open the repository (and \<^verbatim>\<open>defer unlock()\<close>), find
  the snapshot, load the index, find the subfolder's tree, build the restorer, install
  the selector, print the start line, run \<^verbatim>\<open>res.RestoreTo\<close>. \<open>Inr\<close> is reached when
  \<^verbatim>\<open>RestoreTo\<close> has returned \<^verbatim>\<open>nil\<close>: the restore phase is complete. (The \<^verbatim>\<open>debug.Log\<close> line
  and the construction of the progress printer have no part in the result.)
\<close>

definition restoreStage ::
  "('repo, 'w) env \<Rightarrow> RestoreOptions \<Rightarrow> GlobalOptions \<Rightarrow> string list \<Rightarrow> session
   \<Rightarrow> error \<times> session + ('repo, 'w) Restorer \<times> session"
where
  "restoreStage env opts gopts args s0 =
     (case validatePhase env opts gopts args s0 of
        Inl (err, s) \<Rightarrow> Inl (err, s)
      | Inr ((excludePatternFns, includePatternFns), s2) \<Rightarrow>
     (let snapshotIDString = args ! 0;
          s3 = called Call_openWithReadLock s2 in
      case openWithReadLock env gopts (NoLock gopts) of
        Inl err \<Rightarrow> Inl (err, s3)
      | Inr repo \<Rightarrow>
     (let s4 = s3\<lparr>deferred := Call_unlock # deferred s3\<rparr>;
          s5 = called Call_FindLatest s4 in
      case FindLatest env (Hosts opts) (Paths opts) (Tags opts) repo snapshotIDString of
        Inl err \<Rightarrow> Inl (Fatal (''failed to find snapshot: '' @ error_text err), s5)
      | Inr (sn, subfolder) \<Rightarrow>
     (let s6 = called Call_LoadIndex s5 in
      case LoadIndex env repo of
        Some err \<Rightarrow> Inl (err, s6)
      | None \<Rightarrow>
     (let s7 = called Call_FindTreeDirectory s6 in
      case FindTreeDirectory env repo (Tree sn) subfolder of
        Inl err \<Rightarrow> Inl (err, s7)
      | Inr tree \<Rightarrow>
     (let sn' = sn\<lparr>Tree := tree\<rparr>;
          res = \<lparr>res_repo = repo, res_sn = sn', res_sparse = Sparse opts,
                 SelectFilter =
                   (if hasExcludes opts then Some (selectExcludeFilter excludePatternFns)
                    else if hasIncludes opts then Some (selectIncludeFilter includePatternFns)
                    else None)\<rparr>;
          s8 = (if \<not> JSON gopts
                then msg_P (''restoring '' @ Snapshot_String env (res_sn res) @ '' to ''
                            @ Target opts @ ''\<newline>'') s7
                else s7);
          s9 = called Call_RestoreTo s8 in
      case run_engine (RestoreTo env res (Target opts)) s9 of
        (Some err, s10) \<Rightarrow> Inl (err, s10)
      | (None, s10) \<Rightarrow> Inr (res, s10)))))))"

text \<open>
  Lines 193 to 219, after a completed restore: \<^verbatim>\<open>progress.Finish()\<close>, the first check of
  \<^verbatim>\<open>totalErrors\<close>, and under \<^verbatim>\<open>opts.Verify\<close> the verify pass, its own error, the second check
  of \<^verbatim>\<open>totalErrors\<close> and the closing line.
\<close>

definition checkErrorsAndVerify ::
  "('repo, 'w) env \<Rightarrow> RestoreOptions \<Rightarrow> GlobalOptions \<Rightarrow> ('repo, 'w) Restorer \<Rightarrow> session
   \<Rightarrow> error option \<times> session"
where
  "checkErrorsAndVerify env opts gopts res s0 =
     (let s1 = called Call_Finish s0 in
      if totalErrors s1 > 0 then
        (Some (Fatal (''There were '' @ fmt_d (totalErrors s1) @ '' errors\<newline>'')), s1)
      else if Verify opts then
        (let s2 = (if \<not> JSON gopts
                   then msg_P (''verifying files in '' @ Target opts @ ''\<newline>'') s1
                   else s1);
             s3 = called Call_VerifyFiles s2 in
         case run_engine (VerifyFiles env res (Target opts)) s3 of
           ((count, Some err), s4) \<Rightarrow> (Some err, s4)
         | ((count, None), s4) \<Rightarrow>
             if totalErrors s4 > 0 then
               (Some (Fatal (''There were '' @ fmt_d (totalErrors s4) @ '' errors\<newline>'')), s4)
             else
               (None,
                if \<not> JSON gopts
                then msg_P (''finished verifying '' @ fmt_d count @ '' files in '' @ Target opts
                            @ '' (took '' @ elapsed env @ '')\<newline>'') s4
                else s4))
      else (None, s1))"

text \<open>A \<^verbatim>\<open>return\<close> runs the deferred calls, last registered first.\<close>

definition runDeferred :: "'a \<times> session \<Rightarrow> 'a \<times> session" where
  "runDeferred rs = (case rs of (r, s) \<Rightarrow> (r, s\<lparr>calls := calls s @ deferred s, deferred := []\<rparr>))"

definition runRestore ::
  "('repo, 'w) env \<Rightarrow> RestoreOptions \<Rightarrow> GlobalOptions \<Rightarrow> string list
   \<Rightarrow> error option \<times> session"
where
  "runRestore env opts gopts args =
     runDeferred
       (case restoreStage env opts gopts args init of
          Inl (err, s) \<Rightarrow> (Some err, s)
        | Inr (res, s) \<Rightarrow> checkErrorsAndVerify env opts gopts res s)"

subsection \<open>A concrete setting for example runs\<close>

text \<open>
  A restorer pass that reports the given items to \<^verbatim>\<open>res.Error\<close> one after the other and
  then returns \<open>r\<close>; should a call return an error, it stops and returns what \<open>abort\<close>
  makes of it.
\<close>

primrec reportAll :: "(string \<times> error) list \<Rightarrow> 'r \<Rightarrow> (error \<Rightarrow> 'r) \<Rightarrow> 'r engine" where
  "reportAll [] r abort = Return r"
| "reportAll (x # xs) r abort =
     CallError (fst x) (snd x)
       (\<lambda>ret. case ret of None \<Rightarrow> reportAll xs r abort | Some e \<Rightarrow> Return (abort e))"

text \<open>
  Collaborators that all succeed: patterns match a path equal to them, the repository
  is a unit value, the snapshot found carries the requested ID, the two restorer passes
  are given.
\<close>

definition demo_env ::
  "error option engine \<Rightarrow> (int \<times> error option) engine \<Rightarrow> (unit, unit) env" where
  "demo_env restore verify =
     \<lparr>CollectExcludePatterns =
        (\<lambda>opts. Inr (map (\<lambda>p. pureFn (\<lambda>item. item = p)) (Excludes opts @ InsensitiveExcludes opts))),
      CollectIncludePatterns =
        (\<lambda>opts. Inr (map (\<lambda>p. pureFn (\<lambda>item. (item = p, True))) (Includes opts @ InsensitiveIncludes opts))),
      openWithReadLock = (\<lambda>gopts noLock. Inr ()),
      FindLatest = (\<lambda>hosts paths tags repo snapshotID. Inr (\<lparr>ID = snapshotID, Tree = ''t0''\<rparr>, '''')),
      LoadIndex = (\<lambda>repo. None),
      FindTreeDirectory = (\<lambda>repo tree subfolder. Inr tree),
      Snapshot_String = ID,
      RestoreTo = (\<lambda>res target. restore),
      VerifyFiles = (\<lambda>res target. verify),
      elapsed = ''12ms''\<rparr>"

definition demo_opts :: RestoreOptions where
  "demo_opts =
     \<lparr>Excludes = [], InsensitiveExcludes = [], Includes = [], InsensitiveIncludes = [],
      Target = ''/tmp/out'', Hosts = [], Paths = [], Tags = [], Sparse = False, Verify = False\<rparr>"

definition demo_gopts :: GlobalOptions where
  "demo_gopts = \<lparr>NoLock = False, Quiet = False, JSON = False, verbosity = 1\<rparr>"

definition three_errors :: "(string \<times> error) list" where
  "three_errors = [(''/a'', Failure ''denied''), (''/b'', Failure ''denied''), (''/c'', Failure ''short read'')]"

definition demo_res :: "(unit, unit) Restorer" where
  "demo_res =
     \<lparr>res_repo = (), res_sn = \<lparr>ID = ''latest'', Tree = ''t0''\<rparr>, res_sparse = False,
      SelectFilter = None\<rparr>"

subsection \<open>Properties of the selectors\<close>

lemma includeLoop_snoc:
  "includeLoop (fns @ [f]) item d w = f item (evaluated fns item w)"
  by (induction fns arbitrary: d w) (auto simp: evaluated_def split: prod.splits)

lemma evaluated_pure: "evaluated (map pureFn fs) item w = w"
  by (induction fs) (auto simp: evaluated_def pureFn_def)

text \<open>
  With logging functions: the exclude selector calls function 0 and not function 1; the
  include selector calls both, 0 before 1, and answers as 1 does.
\<close>

lemma exclude_call_log:
  "selectExcludeFilter [logged 0 (\<lambda>_. False), logged 1 (\<lambda>_. True)] item path node [] =
     ((True, Type node = ''dir''), [0])"
  by (simp add: logged_def)

lemma include_call_log:
  "selectIncludeFilter [logged 0 (\<lambda>_. (True, True)), logged 1 (\<lambda>_. (False, False))] item path node [] =
     ((False, False), [0, 1])"
  by (simp add: selectIncludeFilter_def logged_def)

text \<open>
  C1. Exclude mode, non-empty list \<open>P1 # Ps\<close> of reject functions: for every node and
  path the decision is made from the first function only. With \<open>matched\<close> its result,
  \<open>selectedForRestore = \<not> matched\<close> and \<open>childMayBeSelected\<close> is \<open>selectedForRestore\<close>
  and the node being a directory. No function of \<open>Ps\<close> is called: the state after the
  selector is the state \<open>P1\<close> left, and the whole result is that of the one-element list
  \<open>[P1]\<close>, whatever \<open>Ps\<close> holds. In particular, when \<open>P1\<close> never matches and a second
  function always matches, the node is selected.
\<close>

theorem C1_exclude_first_predicate_only:
  "selectExcludeFilter (P1 # Ps) item path node w =
     ((\<not> fst (P1 item w), \<not> fst (P1 item w) \<and> Type node = ''dir''), snd (P1 item w))
   \<and> selectExcludeFilter (P1 # Ps) item path node w = selectExcludeFilter [P1] item path node w
   \<and> fst (selectExcludeFilter (pureFn p1 # Ps) item path node w) =
       (\<not> p1 item, \<not> p1 item \<and> Type node = ''dir'')
   \<and> fst (fst (selectExcludeFilter [pureFn (\<lambda>_. False), pureFn (\<lambda>_. True)] item path node w)) = True"
  by (simp add: pureFn_def Let_def case_prod_beta)

text \<open>
  C2. Include mode, non-empty list \<open>Qs @ [Q]\<close> of include functions: every function is
  called, in order (the last one runs in the state the earlier ones left, and the final
  state is the one it leaves); each call overwrites both results, so
  \<open>selectedForRestore\<close> is the last function's first result, and \<open>childMayBeSelected\<close> is
  its second result and the node being a directory. The results of the functions of
  \<open>Qs\<close> do not occur in the decision.
\<close>

theorem C2_include_last_predicate_wins:
  "selectIncludeFilter (Qs @ [Q]) item path node w =
     ((fst (fst (Q item (evaluated Qs item w))),
       snd (fst (Q item (evaluated Qs item w))) \<and> Type node = ''dir''),
      snd (Q item (evaluated Qs item w)))
   \<and> snd (selectIncludeFilter (Qs @ [Q]) item path node w) = evaluated (Qs @ [Q]) item w
   \<and> fst (selectIncludeFilter (map pureFn (qs @ [q])) item path node w) =
       (fst (q item), snd (q item) \<and> Type node = ''dir'')"
proof -
  have loop: "includeLoop (Qs @ [Q]) item (False, False) w = Q item (evaluated Qs item w)"
    by (rule includeLoop_snoc)
  have pure_loop:
    "includeLoop (map pureFn (qs @ [q])) item (False, False) w = (q item, w)"
    using includeLoop_snoc [of "map pureFn qs" "pureFn q" item "(False, False)" w]
    by (simp add: evaluated_pure) (simp add: pureFn_def)
  have last_state: "evaluated (Qs @ [Q]) item w = snd (Q item (evaluated Qs item w))"
    by (simp add: evaluated_def)
  show ?thesis
    using pure_loop
    by (simp add: selectIncludeFilter_def loop last_state case_prod_beta)
qed

text \<open>
  C5. With an empty list the selector of either mode returns the zero value of the
  decision for every node and path: \<open>selectedForRestore = False\<close> and
  \<open>childMayBeSelected = False\<close>. This is what the two loops give when their body never
  runs: the named results keep the values Go gave them.
\<close>

theorem C5_empty_list_zero_decision:
  "selectExcludeFilter [] item path node w = ((False, False), w)
   \<and> selectIncludeFilter [] item path node w = ((False, False), w)"
  by (simp add: selectIncludeFilter_def)

text \<open>
  C6. For a node whose type is not \<^verbatim>\<open>"dir"\<close>, every path and every list of functions,
  both selectors return \<open>childMayBeSelected = False\<close>.
\<close>

theorem C6_non_directory_no_descent:
  assumes "Type node \<noteq> ''dir''"
  shows "snd (fst (selectExcludeFilter rejectFns item path node w)) = False
       \<and> snd (fst (selectIncludeFilter includeFns item path node w)) = False"
proof
  show "snd (fst (selectExcludeFilter rejectFns item path node w)) = False"
    using assms by (cases rejectFns) (auto simp: Let_def split: prod.splits)
  show "snd (fst (selectIncludeFilter includeFns item path node w)) = False"
    using assms by (auto simp: selectIncludeFilter_def split: prod.splits)
qed

theorem C6_non_directory_no_descent_witness:
  "Type \<lparr>Type = ''file''\<rparr> \<noteq> ''dir''
   \<and> snd (fst (selectExcludeFilter [pureFn (\<lambda>_. False)] ''a/b'' ''a/b'' \<lparr>Type = ''file''\<rparr> ())) = False
   \<and> snd (fst (selectIncludeFilter [pureFn (\<lambda>_. (True, True))] ''a/b'' ''a/b'' \<lparr>Type = ''file''\<rparr> ())) = False
   \<and> fst (fst (selectIncludeFilter [pureFn (\<lambda>_. (True, True))] ''a/b'' ''a/b'' \<lparr>Type = ''file''\<rparr> ())) = True"
proof -
  have h: "Type \<lparr>Type = ''file''\<rparr> \<noteq> ''dir''" by simp
  have sel: "fst (fst (selectIncludeFilter [pureFn (\<lambda>_. (True, True))] ''a/b'' ''a/b''
                    \<lparr>Type = ''file''\<rparr> ())) = True"
    by (simp add: selectIncludeFilter_def pureFn_def)
  from h sel
    C6_non_directory_no_descent [OF h, where rejectFns = "[pureFn (\<lambda>_. False)]"
      and includeFns = "[pureFn (\<lambda>_. (True, True))]" and item = "''a/b''"
      and path = "''a/b''" and w = "()"]
  show ?thesis by simp
qed

subsection \<open>Properties of the callbacks and of the run\<close>

lemma run_engine_eq:
  "run_engine t s =
     (engineResult t,
      s\<lparr>out := out s @ engineLines t, totalErrors := totalErrors s + int (errorsReported t)\<rparr>)"
  by (induction t arbitrary: s) (simp_all add: res_Error_def res_Warn_def msg_E_def Let_def)

lemma length_one: "args \<noteq> [] \<Longrightarrow> \<not> Suc 0 < length args \<Longrightarrow> length args = Suc 0"
  by (cases args) auto

lemma validatePhase_Inr:
  "validatePhase env opts gopts args s0 = Inr (fns, s) \<Longrightarrow>
     length args = 1 \<and> Target opts \<noteq> '''' \<and> \<not> (hasExcludes opts \<and> hasIncludes opts)
     \<and> s = s0\<lparr>calls := calls s0 @ [Call_CollectExclude, Call_CollectInclude]\<rparr>"
  by (auto simp: validatePhase_def called_def Let_def length_one split: sum.splits if_splits)

lemma restoreStage_Inr:
  assumes "restoreStage env opts gopts args init = Inr (res, s)"
  shows "totalErrors s = int (errorsReported (RestoreTo env res (Target opts)))"
    and "engineResult (RestoreTo env res (Target opts)) = None"
    and "calls s = [Call_CollectExclude, Call_CollectInclude, Call_openWithReadLock,
                    Call_FindLatest, Call_LoadIndex, Call_FindTreeDirectory, Call_RestoreTo]"
    and "deferred s = [Call_unlock]"
    and "length args = 1 \<and> Target opts \<noteq> '''' \<and> \<not> (hasExcludes opts \<and> hasIncludes opts)"
  using assms
  by (auto simp: restoreStage_def called_def Let_def run_engine_eq init_def msg_P_def
           dest!: validatePhase_Inr
           split: sum.splits if_splits option.splits prod.splits)

declare fmt_d_nat.simps [simp del]

text \<open>The line \<^verbatim>\<open>res.Error\<close> prints for a fatal cause carries the \<^verbatim>\<open>Fatal: \<close> of its text.\<close>

lemma res_Error_fatal_cause_line:
  "out (snd (res_Error ''/a'' (Fatal ''short read'') init)) =
     [E ''ignoring error for /a: Fatal: short read\<newline>'']"
  by (simp add: res_Error_def msg_E_def init_def)

text \<open>
  C8. For every location, cause and state, the per-item error callback returns \<^verbatim>\<open>nil\<close>
  (\<open>None\<close>: go on; it never returns an error, so it never asks for an abort), sends one
  line to \<^verbatim>\<open>msg.E\<close> and adds exactly one to \<^verbatim>\<open>totalErrors\<close>; a restorer that calls it goes on
  with \<^verbatim>\<open>nil\<close>. For every message and state, the warning callback sends one line to
  \<^verbatim>\<open>msg.E\<close> and leaves \<^verbatim>\<open>totalErrors\<close> as it was.
\<close>

theorem C8_callbacks:
  "res_Error location err s =
     (None, s\<lparr>out := out s @ [E (''ignoring error for '' @ location @ '': '' @ error_text err @ ''\<newline>'')],
              totalErrors := totalErrors s + 1\<rparr>)
   \<and> fst (res_Error location err s) = None
   \<and> totalErrors (snd (res_Error location err s)) = totalErrors s + 1
   \<and> run_engine (CallError location err k) s = run_engine (k None) (snd (res_Error location err s))
   \<and> res_Warn message s = s\<lparr>out := out s @ [E (''Warning: '' @ message @ ''\<newline>'')]\<rparr>
   \<and> totalErrors (res_Warn message s) = totalErrors s"
  by (simp add: res_Error_def res_Warn_def msg_E_def Let_def)

lemma runRestore_after_restore:
  assumes "restoreStage env opts gopts args init = Inr (res, s)"
  shows "runRestore env opts gopts args = runDeferred (checkErrorsAndVerify env opts gopts res s)"
  using assms by (simp add: runRestore_def)

lemma runRestore_VerifyFiles_called:
  assumes "Call_VerifyFiles \<in> set (calls (snd (runRestore env opts gopts args)))"
  shows "\<exists>res s. restoreStage env opts gopts args init = Inr (res, s) \<and> totalErrors s = 0 \<and> Verify opts"
proof (cases "restoreStage env opts gopts args init")
  case (Inl a)
  obtain err s where a: "a = (err, s)" by (cases a)
  have "Call_VerifyFiles \<notin> set (calls s @ deferred s)"
    using Inl a
    by (auto simp: restoreStage_def validatePhase_def called_def Let_def run_engine_eq init_def msg_P_def
           split: sum.splits if_splits option.splits prod.splits)
  with assms Inl a show ?thesis by (simp add: runRestore_def runDeferred_def)
next
  case (Inr b)
  obtain res s where b: "b = (res, s)" by (cases b)
  note st = restoreStage_Inr [OF Inr [unfolded b]]
  have "totalErrors s \<ge> 0" using st(1) by simp
  show ?thesis
  proof (cases "totalErrors s = 0 \<and> Verify opts")
    case True
    with Inr b show ?thesis by simp
  next
    case False
    with \<open>totalErrors s \<ge> 0\<close> have "Call_VerifyFiles \<notin> set (calls (snd (runRestore env opts gopts args)))"
      using st(3,4) Inr b
      by (auto simp: runRestore_def runDeferred_def checkErrorsAndVerify_def called_def Let_def)
    with assms show ?thesis by simp
  qed
qed

text \<open>
  C3. When the restore phase has completed (\<^verbatim>\<open>RestoreTo\<close> returned \<^verbatim>\<open>nil\<close>) and left
  \<^verbatim>\<open>totalErrors\<close> nonzero, the command returns the fatal error \<^verbatim>\<open>There were N errors\<close> (and a
  newline), \<open>N\<close> being that count, which is the number of \<^verbatim>\<open>res.Error\<close> calls the restorer
  made; the calls of the run end with \<^verbatim>\<open>progress.Finish\<close> and the deferred \<^verbatim>\<open>unlock\<close>, and
  \<^verbatim>\<open>VerifyFiles\<close> is not among them, whatever \<^verbatim>\<open>opts.Verify\<close> says. Conversely, a run that
  calls \<^verbatim>\<open>VerifyFiles\<close> has completed the restore phase with \<^verbatim>\<open>totalErrors = 0\<close>.
\<close>

theorem C3_errors_after_restore_skip_verify:
  "(restoreStage env opts gopts args init = Inr (res, s) \<and> totalErrors s \<noteq> 0 \<longrightarrow>
      fst (runRestore env opts gopts args) =
        Some (Fatal (''There were '' @ fmt_d (totalErrors s) @ '' errors\<newline>''))
      \<and> totalErrors s = int (errorsReported (RestoreTo env res (Target opts)))
      \<and> calls (snd (runRestore env opts gopts args)) =
          [Call_CollectExclude, Call_CollectInclude, Call_openWithReadLock, Call_FindLatest,
           Call_LoadIndex, Call_FindTreeDirectory, Call_RestoreTo, Call_Finish, Call_unlock]
      \<and> Call_VerifyFiles \<notin> set (calls (snd (runRestore env opts gopts args))))
   \<and> (Call_VerifyFiles \<in> set (calls (snd (runRestore env opts gopts args))) \<longrightarrow>
      (\<exists>res s. restoreStage env opts gopts args init = Inr (res, s) \<and> totalErrors s = 0))"
proof (intro conjI impI)
  assume a: "restoreStage env opts gopts args init = Inr (res, s) \<and> totalErrors s \<noteq> 0"
  then have st: "restoreStage env opts gopts args init = Inr (res, s)" and nz: "totalErrors s \<noteq> 0"
    by simp_all
  note facts = restoreStage_Inr [OF st]
  from facts(1) nz have pos: "0 < totalErrors s" by simp
  have run: "runRestore env opts gopts args =
      (Some (Fatal (''There were '' @ fmt_d (totalErrors s) @ '' errors\<newline>'')),
       s\<lparr>calls := calls s @ [Call_Finish, Call_unlock], deferred := []\<rparr>)"
    using pos facts(4)
    by (simp add: runRestore_after_restore [OF st] checkErrorsAndVerify_def runDeferred_def
          called_def Let_def)
  show "fst (runRestore env opts gopts args) =
        Some (Fatal (''There were '' @ fmt_d (totalErrors s) @ '' errors\<newline>''))"
    by (simp add: run)
  show "totalErrors s = int (errorsReported (RestoreTo env res (Target opts)))"
    by (rule facts(1))
  show c: "calls (snd (runRestore env opts gopts args)) =
          [Call_CollectExclude, Call_CollectInclude, Call_openWithReadLock, Call_FindLatest,
           Call_LoadIndex, Call_FindTreeDirectory, Call_RestoreTo, Call_Finish, Call_unlock]"
    by (simp add: run facts(3))
  show "Call_VerifyFiles \<notin> set (calls (snd (runRestore env opts gopts args)))"
    by (simp add: c)
next
  assume "Call_VerifyFiles \<in> set (calls (snd (runRestore env opts gopts args)))"
  from runRestore_VerifyFiles_called [OF this]
  show "\<exists>res s. restoreStage env opts gopts args init = Inr (res, s) \<and> totalErrors s = 0"
    by blast
qed

lemmas run_defs = runRestore_def restoreStage_def validatePhase_def checkErrorsAndVerify_def
  runDeferred_def called_def msg_P_def msg_E_def res_Error_def res_Warn_def init_def
  hasExcludes_def hasIncludes_def fmt_d_def fmt_v_def Let_def fmt_d_nat.simps

lemmas demo_defs = demo_env_def demo_opts_def demo_gopts_def three_errors_def demo_res_def

theorem C3_errors_after_restore_skip_verify_witness:
  "restoreStage (demo_env (reportAll three_errors None Some) (Return (0, None)))
       (demo_opts\<lparr>Verify := True\<rparr>) demo_gopts [''latest''] init =
     Inr (demo_res,
          \<lparr>totalErrors = 3,
           out = [P ''restoring latest to /tmp/out\<newline>'',
                  E ''ignoring error for /a: denied\<newline>'',
                  E ''ignoring error for /b: denied\<newline>'',
                  E ''ignoring error for /c: short read\<newline>''],
           calls = [Call_CollectExclude, Call_CollectInclude, Call_openWithReadLock,
                    Call_FindLatest, Call_LoadIndex, Call_FindTreeDirectory, Call_RestoreTo],
           deferred = [Call_unlock]\<rparr>)
   \<and> fst (runRestore (demo_env (reportAll three_errors None Some) (Return (0, None)))
            (demo_opts\<lparr>Verify := True\<rparr>) demo_gopts [''latest'']) =
       Some (Fatal ''There were 3 errors\<newline>'')
   \<and> Call_VerifyFiles \<notin> set (calls (snd (runRestore
          (demo_env (reportAll three_errors None Some) (Return (0, None)))
          (demo_opts\<lparr>Verify := True\<rparr>) demo_gopts [''latest''])))
   \<and> Call_VerifyFiles \<in> set (calls (snd (runRestore
          (demo_env (Return None) (Return (7, None)))
          (demo_opts\<lparr>Verify := True\<rparr>) demo_gopts [''latest''])))
   \<and> (\<exists>res s. restoreStage (demo_env (Return None) (Return (7, None)))
          (demo_opts\<lparr>Verify := True\<rparr>) demo_gopts [''latest''] init = Inr (res, s)
        \<and> totalErrors s = 0)"
proof -
  let ?envD = "demo_env (reportAll three_errors None Some) (Return (0, None))"
  let ?envV = "demo_env (Return None) (Return (7, None))"
  let ?opts = "demo_opts\<lparr>Verify := True\<rparr>"
  let ?sD = "\<lparr>totalErrors = 3,
           out = [P ''restoring latest to /tmp/out\<newline>'',
                  E ''ignoring error for /a: denied\<newline>'',
                  E ''ignoring error for /b: denied\<newline>'',
                  E ''ignoring error for /c: short read\<newline>''],
           calls = [Call_CollectExclude, Call_CollectInclude, Call_openWithReadLock,
                    Call_FindLatest, Call_LoadIndex, Call_FindTreeDirectory, Call_RestoreTo],
           deferred = [Call_unlock]\<rparr>"
  have st: "restoreStage ?envD ?opts demo_gopts [''latest''] init = Inr (demo_res, ?sD)"
    by (simp add: run_defs demo_defs)
  have nz: "totalErrors ?sD \<noteq> 0" by simp
  have three: "fmt_d (totalErrors ?sD) = ''3''" by (simp add: fmt_d_def fmt_d_nat.simps)
  have entered: "Call_VerifyFiles \<in> set (calls (snd (runRestore ?envV ?opts demo_gopts [''latest''])))"
    by (simp add: run_defs demo_defs)
  note thm1 = C3_errors_after_restore_skip_verify
      [of ?envD ?opts demo_gopts "[''latest'']" demo_res ?sD, THEN conjunct1, rule_format, OF conjI [OF st nz]]
  note thm2 = C3_errors_after_restore_skip_verify
      [of ?envV ?opts demo_gopts "[''latest'']" demo_res ?sD, THEN conjunct2, rule_format, OF entered]
  from st thm1 thm2 three entered show ?thesis by simp
qed




text \<open>
  C7, as stated, fails in JSON mode: with \<^verbatim>\<open>--verify\<close> and \<^verbatim>\<open>--json\<close>, a restore and a
  verify pass that report no error end in success, \<^verbatim>\<open>VerifyFiles\<close> has been called, and no
  line at all has been sent to the message sink: neither the elapsed time nor the number
  of files verified (7 here) is reported. Lines 213 to 216 print them under
  \<^verbatim>\<open>if !gopts.JSON\<close> only.
\<close>

theorem C7_verify_claim_counterexample:
  "runRestore (demo_env (Return None) (Return (7, None))) (demo_opts\<lparr>Verify := True\<rparr>)
       (demo_gopts\<lparr>JSON := True\<rparr>) [''latest''] =
     (None,
      \<lparr>totalErrors = 0, out = [],
       calls = [Call_CollectExclude, Call_CollectInclude, Call_openWithReadLock, Call_FindLatest,
                Call_LoadIndex, Call_FindTreeDirectory, Call_RestoreTo, Call_Finish,
                Call_VerifyFiles, Call_unlock],
       deferred = []\<rparr>)"
  by (simp add: run_defs demo_defs)

text \<open>
  C7, amended. The verify pass is entered after a restore phase that left
  \<^verbatim>\<open>totalErrors = 0\<close>, under \<^verbatim>\<open>opts.Verify\<close>, and runs with the same callbacks on the same
  counter: afterwards \<^verbatim>\<open>totalErrors\<close> is the count the restore phase left plus the number
  of \<^verbatim>\<open>res.Error\<close> calls of the verify pass. If \<^verbatim>\<open>VerifyFiles\<close> returns an error of its own,
  the command returns that error. Otherwise a nonzero count gives the fatal error
  \<^verbatim>\<open>There were N errors\<close> (and a newline), and a zero count gives success; the line
  \<^verbatim>\<open>finished verifying <count> files in <target> (took <elapsed>)\<close> is printed on success
  when JSON output is off, and nothing is printed for it when JSON output is on.
\<close>

theorem C7_verify_same_counter_second_check:
  assumes st: "restoreStage env opts gopts args init = Inr (res, s)"
      and zero: "totalErrors s = 0"
      and verify: "Verify opts"
      and v: "v = VerifyFiles env res (Target opts)"
      and run: "runRestore env opts gopts args = (r, s')"
  shows "Call_VerifyFiles \<in> set (calls s')
       \<and> totalErrors s' = totalErrors s + int (errorsReported v)
       \<and> (snd (engineResult v) = Some e \<longrightarrow> r = Some e)
       \<and> (snd (engineResult v) = None \<and> errorsReported v \<noteq> 0 \<longrightarrow>
            r = Some (Fatal (''There were '' @ fmt_d (totalErrors s') @ '' errors\<newline>'')))
       \<and> (snd (engineResult v) = None \<and> errorsReported v = 0 \<longrightarrow>
            r = None
            \<and> out s' =
                out s
                @ (if JSON gopts then [] else [P (''verifying files in '' @ Target opts @ ''\<newline>'')])
                @ engineLines v
                @ (if JSON gopts then []
                   else [P (''finished verifying '' @ fmt_d (fst (engineResult v)) @ '' files in ''
                            @ Target opts @ '' (took '' @ elapsed env @ '')\<newline>'')]))"
proof -
  obtain cnt err where res_v: "engineResult v = (cnt, err)" by (cases "engineResult v")
  have "runDeferred (checkErrorsAndVerify env opts gopts res s) = (r, s')"
    using run by (simp add: runRestore_after_restore [OF st])
  then show ?thesis
    using zero verify v [symmetric] res_v
    by (cases err)
       (auto simp: checkErrorsAndVerify_def runDeferred_def called_def msg_P_def Let_def
          run_engine_eq split: if_splits)
qed

theorem C7_verify_same_counter_second_check_witness:
  "restoreStage (demo_env (Return None) (CallError ''/a'' (Failure ''mismatch'') (\<lambda>ret. Return (7, ret))))
       (demo_opts\<lparr>Verify := True\<rparr>) demo_gopts [''latest''] init =
     Inr (demo_res,
          \<lparr>totalErrors = 0, out = [P ''restoring latest to /tmp/out\<newline>''],
           calls = [Call_CollectExclude, Call_CollectInclude, Call_openWithReadLock,
                    Call_FindLatest, Call_LoadIndex, Call_FindTreeDirectory, Call_RestoreTo],
           deferred = [Call_unlock]\<rparr>)
   \<and> runRestore (demo_env (Return None) (CallError ''/a'' (Failure ''mismatch'') (\<lambda>ret. Return (7, ret))))
       (demo_opts\<lparr>Verify := True\<rparr>) demo_gopts [''latest''] =
     (Some (Fatal ''There were 1 errors\<newline>''),
      \<lparr>totalErrors = 1,
       out = [P ''restoring latest to /tmp/out\<newline>'', P ''verifying files in /tmp/out\<newline>'',
              E ''ignoring error for /a: mismatch\<newline>''],
       calls = [Call_CollectExclude, Call_CollectInclude, Call_openWithReadLock, Call_FindLatest,
                Call_LoadIndex, Call_FindTreeDirectory, Call_RestoreTo, Call_Finish,
                Call_VerifyFiles, Call_unlock],
       deferred = []\<rparr>)
   \<and> runRestore (demo_env (Return None) (Return (7, None)))
       (demo_opts\<lparr>Verify := True\<rparr>) demo_gopts [''latest''] =
     (None,
      \<lparr>totalErrors = 0,
       out = [P ''restoring latest to /tmp/out\<newline>'', P ''verifying files in /tmp/out\<newline>'',
              P ''finished verifying 7 files in /tmp/out (took 12ms)\<newline>''],
       calls = [Call_CollectExclude, Call_CollectInclude, Call_openWithReadLock, Call_FindLatest,
                Call_LoadIndex, Call_FindTreeDirectory, Call_RestoreTo, Call_Finish,
                Call_VerifyFiles, Call_unlock],
       deferred = []\<rparr>)"
proof -
  let ?verifyE = "CallError ''/a'' (Failure ''mismatch'') (\<lambda>ret. Return (7, ret))
                    :: (int \<times> error option) engine"
  let ?verifyC = "Return (7, None) :: (int \<times> error option) engine"
  let ?envE = "demo_env (Return None) ?verifyE"
  let ?envC = "demo_env (Return None) ?verifyC"
  let ?opts = "demo_opts\<lparr>Verify := True\<rparr>"
  let ?s = "\<lparr>totalErrors = 0, out = [P ''restoring latest to /tmp/out\<newline>''],
           calls = [Call_CollectExclude, Call_CollectInclude, Call_openWithReadLock,
                    Call_FindLatest, Call_LoadIndex, Call_FindTreeDirectory, Call_RestoreTo],
           deferred = [Call_unlock]\<rparr>"
  have stE: "restoreStage ?envE ?opts demo_gopts [''latest''] init = Inr (demo_res, ?s)"
    by (simp add: run_defs demo_defs)
  have stC: "restoreStage ?envC ?opts demo_gopts [''latest''] init = Inr (demo_res, ?s)"
    by (simp add: run_defs demo_defs)
  have zero: "totalErrors ?s = 0" by simp
  have verify: "Verify ?opts" by simp
  have vE: "?verifyE = VerifyFiles ?envE demo_res (Target ?opts)" by (simp add: demo_env_def)
  have vC: "?verifyC = VerifyFiles ?envC demo_res (Target ?opts)" by (simp add: demo_env_def)
  obtain rE sE where runE: "runRestore ?envE ?opts demo_gopts [''latest''] = (rE, sE)"
    by (cases "runRestore ?envE ?opts demo_gopts [''latest'']")
  obtain rC sC where runC: "runRestore ?envC ?opts demo_gopts [''latest''] = (rC, sC)"
    by (cases "runRestore ?envC ?opts demo_gopts [''latest'']")
  note tE = C7_verify_same_counter_second_check [OF stE zero verify vE runE]
  note tC = C7_verify_same_counter_second_check [OF stC zero verify vC runC]
  have totE: "totalErrors sE = 1" using tE by simp
  have rE: "rE = Some (Fatal ''There were 1 errors\<newline>'')"
    using tE totE by (simp add: fmt_d_def fmt_d_nat.simps)
  have rC: "rC = None" using tC by simp
  have outC: "out sC = [P ''restoring latest to /tmp/out\<newline>'', P ''verifying files in /tmp/out\<newline>'',
              P ''finished verifying 7 files in /tmp/out (took 12ms)\<newline>'']"
    using tC by (simp add: demo_defs fmt_d_def fmt_d_nat.simps)
  have sE: "sE = \<lparr>totalErrors = 1,
       out = [P ''restoring latest to /tmp/out\<newline>'', P ''verifying files in /tmp/out\<newline>'',
              E ''ignoring error for /a: mismatch\<newline>''],
       calls = [Call_CollectExclude, Call_CollectInclude, Call_openWithReadLock, Call_FindLatest,
                Call_LoadIndex, Call_FindTreeDirectory, Call_RestoreTo, Call_Finish,
                Call_VerifyFiles, Call_unlock],
       deferred = []\<rparr>"
    using runE by (simp add: run_defs demo_defs)
  have sC: "sC = \<lparr>totalErrors = 0, out = out sC,
       calls = [Call_CollectExclude, Call_CollectInclude, Call_openWithReadLock, Call_FindLatest,
                Call_LoadIndex, Call_FindTreeDirectory, Call_RestoreTo, Call_Finish,
                Call_VerifyFiles, Call_unlock],
       deferred = []\<rparr>"
    using runC by (auto simp add: run_defs demo_defs)
  from stE runE runC rE rC sE sC outC show ?thesis by simp
qed

text \<open>
  C10. The two pattern collections come before every check of the arguments: when
  collecting the exclude patterns fails, the command returns that error and has called
  nothing else; when it succeeds and collecting the include patterns fails, the command
  returns that error. Neither statement asks anything of the argument list, the target
  or the two filter groups.
\<close>

theorem C10_pattern_errors_before_validation:
  "(CollectExcludePatterns env opts = Inl e \<longrightarrow>
      runRestore env opts gopts args = (Some e, init\<lparr>calls := [Call_CollectExclude]\<rparr>))
   \<and> (CollectExcludePatterns env opts = Inr rejectFns \<and> CollectIncludePatterns env opts = Inl e \<longrightarrow>
      runRestore env opts gopts args =
        (Some e, init\<lparr>calls := [Call_CollectExclude, Call_CollectInclude]\<rparr>))"
  by (simp add: runRestore_def restoreStage_def validatePhase_def runDeferred_def called_def
        init_def Let_def)

theorem C10_pattern_errors_before_validation_witness:
  "runRestore
       (demo_env (Return None) (Return (0, None))
          \<lparr>CollectExcludePatterns := \<lambda>opts. Inl (Fatal ''open exclude.txt: no such file'')\<rparr>)
       (demo_opts\<lparr>Excludes := [''*.tmp''], Includes := [''*.go''], Target := ''''\<rparr>) demo_gopts [] =
     (Some (Fatal ''open exclude.txt: no such file''),
      \<lparr>totalErrors = 0, out = [], calls = [Call_CollectExclude], deferred = []\<rparr>)
   \<and> runRestore
       (demo_env (Return None) (Return (0, None))
          \<lparr>CollectIncludePatterns := \<lambda>opts. Inl (Fatal ''open include.txt: no such file'')\<rparr>)
       (demo_opts\<lparr>Excludes := [''*.tmp''], Includes := [''*.go''], Target := ''''\<rparr>) demo_gopts [] =
     (Some (Fatal ''open include.txt: no such file''),
      \<lparr>totalErrors = 0, out = [], calls = [Call_CollectExclude, Call_CollectInclude], deferred = []\<rparr>)"
proof -
  let ?opts = "demo_opts\<lparr>Excludes := [''*.tmp''], Includes := [''*.go''], Target := ''''\<rparr>"
  let ?envX = "demo_env (Return None) (Return (0, None))
          \<lparr>CollectExcludePatterns := \<lambda>opts. Inl (Fatal ''open exclude.txt: no such file'')\<rparr>"
  let ?envI = "demo_env (Return None) (Return (0, None))
          \<lparr>CollectIncludePatterns := \<lambda>opts. Inl (Fatal ''open include.txt: no such file'')\<rparr>"
  have x: "CollectExcludePatterns ?envX ?opts = Inl (Fatal ''open exclude.txt: no such file'')"
    by simp
  have i: "CollectExcludePatterns ?envI ?opts = Inr [pureFn (\<lambda>item. item = ''*.tmp'')]
           \<and> CollectIncludePatterns ?envI ?opts = Inl (Fatal ''open include.txt: no such file'')"
    by (simp add: demo_env_def demo_opts_def)
  from C10_pattern_errors_before_validation
         [where env = ?envX and opts = ?opts and gopts = demo_gopts and args = "[]",
          THEN conjunct1, rule_format, OF x]
       C10_pattern_errors_before_validation
         [where env = ?envI and opts = ?opts and gopts = demo_gopts and args = "[]",
          THEN conjunct2, rule_format, OF i]
  show ?thesis by (simp add: init_def)
qed

end
